theory Spec2Isabelle
  imports Complex_Main
begin

section \<open>Tables\<close>

text \<open>
  \<^verbatim>\<open>Assignment2.py\<close> is a pandas script: every value it handles is a DataFrame, a column
  of one, or a Python list. A cell of a table is a missing value, a string or a number;
  numbers are exact reals here. Row labels and column labels are cells as well, because
  \<^verbatim>\<open>read_data\<close> promotes a row of data to the column header.

  A frame is stored column by column, as pandas does: the row labels, and for every
  column its label and its values from the first row to the last. Column labels may
  repeat (they do in the transposed table of \<^verbatim>\<open>read_data\<close>, where every column is
  labelled with a country).
\<close>

datatype cell = NaN | Str string | Num real

record frame =
  index :: "cell list"
  columns :: "(cell \<times> cell list) list"

datatype error = KeyError | IndexError | ValueError

definition nrows :: "frame \<Rightarrow> nat" where
  "nrows f = length (index f)"

definition labels :: "frame \<Rightarrow> cell list" where
  "labels f = map fst (columns f)"

text \<open>Every column holds one value for each row.\<close>

definition rectangular :: "frame \<Rightarrow> bool" where
  "rectangular f = list_all (\<lambda>c. length (snd c) = nrows f) (columns f)"

text \<open>\<^verbatim>\<open>RangeIndex(n)\<close>: the row labels \<open>0, \<dots>, n - 1\<close>.\<close>

definition range_index :: "nat \<Rightarrow> cell list" where
  "range_index n = map (\<lambda>i. Num (real i)) [0..<n]"

text \<open>
  What \<^verbatim>\<open>pd.read_csv\<close> returns: one value per row in every column, the rows numbered
  from 0, and column labels that are strings and pairwise different (\<^verbatim>\<open>read_csv\<close>
  renames a repeated header).
\<close>

definition is_str :: "cell \<Rightarrow> bool" where
  "is_str c = (case c of Str s \<Rightarrow> True | _ \<Rightarrow> False)"

definition raw_table :: "frame \<Rightarrow> bool" where
  "raw_table f \<longleftrightarrow>
     rectangular f \<and> index f = range_index (nrows f) \<and>
     distinct (labels f) \<and> list_all is_str (labels f)"

text \<open>
  The row at position \<open>i\<close>: its label and its cells, each under its column label; and
  the rows of a frame from the first to the last.
\<close>

definition row :: "frame \<Rightarrow> nat \<Rightarrow> cell \<times> (cell \<times> cell) list" where
  "row f i = (index f ! i, map (\<lambda>c. (fst c, snd c ! i)) (columns f))"

definition frame_rows :: "frame \<Rightarrow> (cell \<times> (cell \<times> cell) list) list" where
  "frame_rows f = map (row f) [0..<nrows f]"

section \<open>Python lists\<close>

text \<open>\<^verbatim>\<open>xs[i]\<close>: a negative index counts from the end, an index out of range raises.\<close>

definition py_getitem :: "'a list \<Rightarrow> int \<Rightarrow> error + 'a" where
  "py_getitem xs i =
     (if 0 \<le> i \<and> i < int (length xs) then Inr (xs ! nat i)
      else if - int (length xs) \<le> i \<and> i < 0 then Inr (xs ! nat (int (length xs) + i))
      else Inl IndexError)"

text \<open>
  \<^verbatim>\<open>xs[start:stop]\<close> with step 1: a missing bound is the end of the list on its side, a
  negative bound counts from the end, and a bound out of range is moved to the nearest
  end. A slice never raises.
\<close>

definition slice_bound :: "nat \<Rightarrow> int \<Rightarrow> nat" where
  "slice_bound n b =
     (let b' = (if b < 0 then b + int n else b)
      in if b' < 0 then 0 else if b' > int n then n else nat b')"

definition py_slice :: "'a list \<Rightarrow> int option \<Rightarrow> int option \<Rightarrow> 'a list" where
  "py_slice xs start stop =
     (let n = length xs;
          lo = (case start of None \<Rightarrow> 0 | Some b \<Rightarrow> slice_bound n b);
          hi = (case stop of None \<Rightarrow> n | Some b \<Rightarrow> slice_bound n b)
      in take (hi - lo) (drop lo xs))"

section \<open>The pandas operations the script calls\<close>

text \<open>
  \<^verbatim>\<open>df[label]\<close>: the values of the column with that label. On the tables of
  \<^verbatim>\<open>read_csv\<close> a label names one column at most.
\<close>

definition getitem :: "frame \<Rightarrow> string \<Rightarrow> error + cell list" where
  "getitem f l =
     (case map_of (columns f) (Str l) of None \<Rightarrow> Inl KeyError | Some vs \<Rightarrow> Inr vs)"

text \<open>
  \<^verbatim>\<open>column.isin(values)\<close> and \<^verbatim>\<open>column == value\<close>, for a list of strings and a string:
  one truth value for each row. A missing value or a number is no member of a list of
  strings and equals no string.
\<close>

definition isin :: "cell list \<Rightarrow> string list \<Rightarrow> bool list" where
  "isin vs xs = map (\<lambda>v. case v of Str s \<Rightarrow> s \<in> set xs | _ \<Rightarrow> False) vs"

definition eq_str :: "cell list \<Rightarrow> string \<Rightarrow> bool list" where
  "eq_str vs s = map (\<lambda>v. v = Str s) vs"

definition mask_and :: "bool list \<Rightarrow> bool list \<Rightarrow> bool list" where
  "mask_and a b = map (\<lambda>p. fst p \<and> snd p) (zip a b)"

text \<open>
  \<^verbatim>\<open>df[mask]\<close> for a mask with one truth value for each row: a new frame of the rows
  whose value is true, in their order, under their labels.
\<close>

definition take_rows :: "frame \<Rightarrow> nat list \<Rightarrow> frame" where
  "take_rows f ps =
     \<lparr>index = map (\<lambda>i. index f ! i) ps,
      columns = map (\<lambda>c. (fst c, map (\<lambda>i. snd c ! i) ps)) (columns f)\<rparr>"

definition getitem_mask :: "frame \<Rightarrow> bool list \<Rightarrow> frame" where
  "getitem_mask f msk = take_rows f (filter (\<lambda>i. msk ! i) [0..<nrows f])"

text \<open>\<^verbatim>\<open>df.dropna(axis=1)\<close>: a new frame without the columns that hold a missing value.\<close>

definition dropna_axis1 :: "frame \<Rightarrow> frame" where
  "dropna_axis1 f = \<lparr>index = index f, columns = filter (\<lambda>c. NaN \<notin> set (snd c)) (columns f)\<rparr>"

text \<open>
  \<^verbatim>\<open>df.iloc[:, j]\<close> for \<open>j \<ge> 0\<close>: the column at position \<open>j\<close>, with its label; it
  raises when there is no such position. \<^verbatim>\<open>df.iloc[:, start:stop]\<close>: a frame of the
  columns in the slice.
\<close>

definition iloc_col :: "frame \<Rightarrow> nat \<Rightarrow> error + cell \<times> cell list" where
  "iloc_col f j = (if j < length (columns f) then Inr (columns f ! j) else Inl IndexError)"

definition iloc_cols :: "frame \<Rightarrow> int option \<Rightarrow> int option \<Rightarrow> frame" where
  "iloc_cols f start stop = \<lparr>index = index f, columns = py_slice (columns f) start stop\<rparr>"

text \<open>
  \<^verbatim>\<open>pd.concat([column, frame], axis=1)\<close> for a column and a frame that carry the same
  row labels, which is the only way the script calls it (both are cut out of
  \<^verbatim>\<open>df_pop1\<close>): the column comes first, and no row is realigned.
\<close>

definition concat_axis1 :: "cell \<times> cell list \<Rightarrow> frame \<Rightarrow> frame" where
  "concat_axis1 c f = \<lparr>index = index f, columns = c # columns f\<rparr>"

text \<open>
  \<^verbatim>\<open>df.set_index([label])\<close>: the column with that label becomes the row labels and
  leaves the columns. It raises \<^verbatim>\<open>KeyError\<close> when no column has the label; with two
  columns of that label, \<^verbatim>\<open>df[label]\<close> is a table and not a column, and building the
  row labels from it raises \<^verbatim>\<open>ValueError\<close>.
\<close>

definition set_index :: "frame \<Rightarrow> string \<Rightarrow> error + frame" where
  "set_index f l =
     (case filter (\<lambda>c. fst c = Str l) (columns f) of
        [] \<Rightarrow> Inl KeyError
      | [c] \<Rightarrow> Inr \<lparr>index = snd c, columns = filter (\<lambda>c. fst c \<noteq> Str l) (columns f)\<rparr>
      | _ \<Rightarrow> Inl ValueError)"

text \<open>
  \<^verbatim>\<open>df.drop(labels, axis=1)\<close>: the frame without the columns of these labels; it
  raises when one of the labels names no column.
\<close>

definition drop_columns :: "frame \<Rightarrow> string list \<Rightarrow> error + frame" where
  "drop_columns f ls =
     (if list_all (\<lambda>l. Str l \<in> set (labels f)) ls
      then Inr \<lparr>index = index f, columns = filter (\<lambda>c. fst c \<notin> Str ` set ls) (columns f)\<rparr>
      else Inl KeyError)"

text \<open>
  \<^verbatim>\<open>df.T\<close>: rows and columns change places. \<^verbatim>\<open>df.reset_index()\<close>: the row labels
  become the first column, named \<^verbatim>\<open>index\<close> (or \<^verbatim>\<open>level_0\<close> when a column \<^verbatim>\<open>index\<close>
  exists; it raises when that name is taken too), and the rows are numbered from 0.
  \<^verbatim>\<open>df.reset_index(drop=True)\<close> only renumbers the rows.
\<close>

definition frame_T :: "frame \<Rightarrow> frame" where
  "frame_T f =
     \<lparr>index = labels f,
      columns = map (\<lambda>i. (index f ! i, map (\<lambda>c. snd c ! i) (columns f))) [0..<nrows f]\<rparr>"

definition reset_index :: "frame \<Rightarrow> error + frame" where
  "reset_index f =
     (let name = (if Str ''index'' \<in> set (labels f) then Str ''level_0'' else Str ''index'')
      in if name \<in> set (labels f) then Inl ValueError
         else Inr \<lparr>index = range_index (nrows f), columns = (name, index f) # columns f\<rparr>)"

definition reset_index_drop :: "frame \<Rightarrow> frame" where
  "reset_index_drop f = \<lparr>index = range_index (nrows f), columns = columns f\<rparr>"

text \<open>
  \<^verbatim>\<open>df.iloc[0]\<close>: the cells of the first row; it raises on a frame without rows.
  \<^verbatim>\<open>df.columns = values\<close>: new column labels, as many as there are columns.
\<close>

definition iloc_row0 :: "frame \<Rightarrow> error + cell list" where
  "iloc_row0 f = (if 0 < nrows f then Inr (map (\<lambda>c. snd c ! 0) (columns f)) else Inl IndexError)"

definition set_columns :: "frame \<Rightarrow> cell list \<Rightarrow> error + frame" where
  "set_columns f ls =
     (if length ls = length (columns f)
      then Inr \<lparr>index = index f, columns = zip ls (map snd (columns f))\<rparr>
      else Inl ValueError)"

text \<open>
  \<^verbatim>\<open>df.drop(index=labels)\<close>: the frame without the rows of these labels; it raises when
  one of the labels names no row. \<^verbatim>\<open>df.rename(columns={old: new})\<close>: every column
  labelled \<open>old\<close> is labelled \<open>new\<close>.
\<close>

definition drop_index :: "frame \<Rightarrow> cell list \<Rightarrow> error + frame" where
  "drop_index f ls =
     (if list_all (\<lambda>l. l \<in> set (index f)) ls
      then Inr (take_rows f (filter (\<lambda>i. index f ! i \<notin> set ls) [0..<nrows f]))
      else Inl KeyError)"

definition rename_columns :: "frame \<Rightarrow> string \<Rightarrow> string \<Rightarrow> frame" where
  "rename_columns f old new =
     \<lparr>index = index f,
      columns = map (\<lambda>c. (if fst c = Str old then Str new else fst c, snd c)) (columns f)\<rparr>"

subsection \<open>Correlation\<close>

text \<open>
  \<^verbatim>\<open>df.corr()\<close> (Pearson, \<^verbatim>\<open>min_periods=1\<close>): for every pair of columns, over the rows
  where both have a value, the sum of the products of the deviations from the two means,
  divided by the square root of the product of the two sums of squared deviations. The
  entry is a missing value when there is no such row or when the divisor is 0. A column
  with a string in it raises (pandas 2). The result has a row and a column for every
  column of \<open>df\<close>.
\<close>

definition mean :: "real list \<Rightarrow> real" where
  "mean xs = sum_list xs / real (length xs)"

definition pearson :: "(real \<times> real) list \<Rightarrow> cell" where
  "pearson ps =
     (let mx = mean (map fst ps); my = mean (map snd ps);
          ssx = sum_list (map (\<lambda>p. (fst p - mx) * (fst p - mx)) ps);
          ssy = sum_list (map (\<lambda>p. (snd p - my) * (snd p - my)) ps);
          cov = sum_list (map (\<lambda>p. (fst p - mx) * (snd p - my)) ps);
          divisor = sqrt (ssx * ssy)
      in if length ps < 1 then NaN
         else if divisor \<noteq> 0 then Num (cov / divisor) else NaN)"

fun both_numbers :: "cell \<times> cell \<Rightarrow> (real \<times> real) option" where
  "both_numbers (Num x, Num y) = Some (x, y)"
| "both_numbers _ = None"

definition corr_pair :: "cell list \<Rightarrow> cell list \<Rightarrow> cell" where
  "corr_pair xs ys = pearson (List.map_filter both_numbers (zip xs ys))"

definition corr :: "frame \<Rightarrow> error + frame" where
  "corr f =
     (if list_ex (\<lambda>c. list_ex is_str (snd c)) (columns f) then Inl ValueError
      else Inr \<lparr>index = labels f,
                columns = map (\<lambda>c. (fst c, map (\<lambda>d. corr_pair (snd d) (snd c)) (columns f)))
                              (columns f)\<rparr>)"

section \<open>The script\<close>

text \<open>
  DataFrames are objects: a variable holds a reference, and \<^verbatim>\<open>inplace=True\<close> or an
  assignment to \<^verbatim>\<open>df.columns\<close> changes the object behind it. The heap lists the
  objects made so far; a reference is a position in it. Every pandas operation above
  returns a new object, which \<open>alloc\<close> adds to the heap.

  Each function of the script takes the heap and returns, unless it raises, the new heap
  and the references its local variables hold when it reaches \<^verbatim>\<open>plt.show()\<close> or
  \<^verbatim>\<open>return\<close>. Printing and plotting are not modelled: \<open>Inr\<close> means that the frame to
  plot was built.
\<close>

type_synonym ref = nat
type_synonym heap = "frame list"

definition alloc :: "frame \<Rightarrow> heap \<Rightarrow> ref \<times> heap" where
  "alloc f h = (length h, h @ [f])"

definition ok :: "error + 'a \<Rightarrow> ('a \<Rightarrow> error + 'b) \<Rightarrow> error + 'b" where
  "ok m k = (case m of Inl e \<Rightarrow> Inl e | Inr x \<Rightarrow> k x)"

subsection \<open>\<^verbatim>\<open>read_data\<close>\<close>

text \<open>
  \<open>csv\<close> is the table that \<^verbatim>\<open>pd.read_csv(filename)\<close> returns. The result lists
  \<^verbatim>\<open>df\<close>, the last \<^verbatim>\<open>df_transpose\<close> and \<^verbatim>\<open>df_clean\<close>; the Python function returns the
  first and the third.
\<close>

definition read_data :: "heap \<Rightarrow> frame \<Rightarrow> error + heap \<times> ref \<times> ref \<times> ref" where
  "read_data h csv =
     (let (df, h) = alloc csv h in
      ok (reset_index (frame_T (h ! df))) (\<lambda>v.
      let (df_transpose, h) = alloc v h in
      ok (iloc_row0 (h ! df_transpose)) (\<lambda>v.
      ok (set_columns (h ! df_transpose) v) (\<lambda>v.
      let h = h[df_transpose := v] in
      ok (drop_index (h ! df_transpose) [Num 0, Num 1, Num 2, Num 3]) (\<lambda>v.
      let (df_transpose, h) = alloc v h;
          (df_transpose, h) = alloc (reset_index_drop
             (rename_columns (h ! df_transpose) ''Country Name'' ''Year'')) h;
          (df_clean, h) = alloc (dropna_axis1 (h ! df_transpose)) h
      in Inr (h, df, df_transpose, df_clean))))))"

subsection \<open>\<^verbatim>\<open>Statistics\<close> and \<^verbatim>\<open>Statistics_line\<close>\<close>

text \<open>
  The right-hand sides of the assignments to \<^verbatim>\<open>df_sub\<close> and \<^verbatim>\<open>df_pop\<close>, which the
  two functions share, and of the assignments to \<^verbatim>\<open>df_new\<close>.
\<close>

definition select_sub :: "frame \<Rightarrow> string list \<Rightarrow> string list \<Rightarrow> error + frame" where
  "select_sub df country_list indicator_list =
     ok (getitem df ''Country Name'') (\<lambda>country.
     ok (getitem df ''Indicator Name'') (\<lambda>indicator.
     Inr (getitem_mask df
            (mask_and (isin country country_list) (isin indicator indicator_list)))))"

definition select_pop :: "frame \<Rightarrow> string list \<Rightarrow> int \<Rightarrow> error + frame" where
  "select_pop df_sub indicator_list idx =
     ok (getitem df_sub ''Indicator Name'') (\<lambda>indicator.
     ok (py_getitem indicator_list idx) (\<lambda>selected.
     Inr (getitem_mask df_sub (eq_str indicator selected))))"

definition window_bar :: "frame \<Rightarrow> int \<Rightarrow> error + frame" where
  "window_bar df_pop1 idx =
     (if idx = 1
      then ok (iloc_col df_pop1 0) (\<lambda>c.
           Inr (concat_axis1 c (iloc_cols df_pop1 (Some (- 6)) None)))
      else ok (iloc_col df_pop1 0) (\<lambda>c.
           Inr (concat_axis1 c (iloc_cols df_pop1 (Some (- 8)) (Some (- 2))))))"

definition window_line :: "frame \<Rightarrow> error + frame" where
  "window_line df_pop1 =
     ok (iloc_col df_pop1 0) (\<lambda>c.
     Inr (concat_axis1 c (iloc_cols df_pop1 (Some (- 8)) (Some (- 2)))))"

text \<open>The results list \<^verbatim>\<open>df_sub\<close>, \<^verbatim>\<open>df_pop\<close>, \<^verbatim>\<open>df_pop1\<close> and \<^verbatim>\<open>df_new\<close>.\<close>

definition Statistics ::
  "heap \<Rightarrow> ref \<Rightarrow> string list \<Rightarrow> string list \<Rightarrow> int \<Rightarrow> error + heap \<times> ref \<times> ref \<times> ref \<times> ref" where
  "Statistics h df country_list indicator_list idx =
     ok (select_sub (h ! df) country_list indicator_list) (\<lambda>v.
     let (df_sub, h) = alloc v h in
     ok (select_pop (h ! df_sub) indicator_list idx) (\<lambda>v.
     let (df_pop, h) = alloc v h;
         (df_pop1, h) = alloc (dropna_axis1 (h ! df_pop)) h in
     ok (window_bar (h ! df_pop1) idx) (\<lambda>v.
     let (df_new, h) = alloc v h in
     ok (set_index (h ! df_new) ''Country Name'') (\<lambda>v.
     Inr (h[df_new := v], df_sub, df_pop, df_pop1, df_new)))))"

definition Statistics_line ::
  "heap \<Rightarrow> ref \<Rightarrow> string list \<Rightarrow> string list \<Rightarrow> int \<Rightarrow> error + heap \<times> ref \<times> ref \<times> ref \<times> ref" where
  "Statistics_line h df country_list indicator_list idx =
     ok (select_sub (h ! df) country_list indicator_list) (\<lambda>v.
     let (df_sub, h) = alloc v h in
     ok (select_pop (h ! df_sub) indicator_list idx) (\<lambda>v.
     let (df_pop, h) = alloc v h;
         (df_pop1, h) = alloc (dropna_axis1 (h ! df_pop)) h in
     ok (window_line (h ! df_pop1)) (\<lambda>v.
     let (df_new, h) = alloc v h in
     ok (set_index (h ! df_new) ''Country Name'') (\<lambda>v.
     Inr (h[df_new := v], df_sub, df_pop, df_pop1, df_new)))))"

subsection \<open>\<^verbatim>\<open>correlations\<close>\<close>

text \<open>
  \<open>select_country\<close> is the frame \<^verbatim>\<open>df_sub[df_sub["Country Name"] == country_list[index]]\<close>,
  whose \<^verbatim>\<open>dropna(axis=1)\<close> is the first \<^verbatim>\<open>df_temp\<close>. The result lists \<^verbatim>\<open>df_sub\<close>,
  \<^verbatim>\<open>df_temp\<close> and \<^verbatim>\<open>corr_matrix\<close>.
\<close>

definition select_country :: "frame \<Rightarrow> string list \<Rightarrow> int \<Rightarrow> error + frame" where
  "select_country df_sub country_list idx =
     ok (getitem df_sub ''Country Name'') (\<lambda>country.
     ok (py_getitem country_list idx) (\<lambda>selected.
     Inr (getitem_mask df_sub (eq_str country selected))))"

definition correlations ::
  "heap \<Rightarrow> ref \<Rightarrow> string list \<Rightarrow> string list \<Rightarrow> int \<Rightarrow> string \<Rightarrow> error + heap \<times> ref \<times> ref \<times> ref" where
  "correlations h df country_list indicator_list idx cmapstyle =
     ok (select_sub (h ! df) country_list indicator_list) (\<lambda>v.
     let (df_sub, h) = alloc v h in
     ok (select_country (h ! df_sub) country_list idx) (\<lambda>v.
     let (df_temp, h) = alloc (dropna_axis1 v) h in
     ok (set_index (h ! df_temp) ''Indicator Name'') (\<lambda>v.
     let h = h[df_temp := v] in
     ok (drop_columns (h ! df_temp) [''Country Name'', ''Country Code'', ''Indicator Code'']) (\<lambda>v.
     let h = h[df_temp := v] in
     ok (corr (frame_T (h ! df_temp))) (\<lambda>v.
     let (corr_matrix, h) = alloc v h
     in Inr (h, df_sub, df_temp, corr_matrix))))))"

subsection \<open>\<^verbatim>\<open>main\<close>\<close>

text \<open>The two lists that \<^verbatim>\<open>main\<close> passes to every call.\<close>

definition country_list :: "string list" where
  "country_list =
     [''India'', ''South Africa'', ''Zimbabwe'', ''United States'', ''United Kingdom'', ''Nigeria'']"

definition indicator_list :: "string list" where
  "indicator_list =
     [''Population growth (annual %)'',
      ''CO2 emissions (kt)'',
      ''Renewable electricity output (% of total electricity output)'',
      ''Agricultural land (sq. km)'',
      ''Urban population growth (annual %)'',
      ''Foreign direct investment, net inflows (% of GDP)'']"

section \<open>What the specification says of a cleaned table\<close>

text \<open>
  The columns in which every row reports a value; and \<open>clean\<close> is \<open>sub\<close> cleaned when
  it has the rows of \<open>sub\<close>, exactly those columns, and no missing value.
\<close>

definition complete_columns :: "frame \<Rightarrow> (cell \<times> cell list) list" where
  "complete_columns f =
     filter (\<lambda>c. list_all (\<lambda>i. snd c ! i \<noteq> NaN) [0..<nrows f]) (columns f)"

definition cleaned :: "frame \<Rightarrow> frame \<Rightarrow> bool" where
  "cleaned sub clean \<longleftrightarrow>
     index clean = index sub \<and> columns clean = complete_columns sub \<and>
     list_all (\<lambda>c. NaN \<notin> set (snd c)) (columns clean)"

text \<open>The columns that are not one of the four identifying columns of a raw table.\<close>

definition year_columns :: "(cell \<times> cell list) list \<Rightarrow> (cell \<times> cell list) list" where
  "year_columns cs =
     filter (\<lambda>c. fst c \<notin> set [Str ''Country Name'', Str ''Country Code'',
                                  Str ''Indicator Name'', Str ''Indicator Code'']) cs"

section \<open>Sample tables\<close>

text \<open>
  A raw table with ten year columns: carbon dioxide emissions of India, Nigeria and
  Kenya, and the population growth of India. Three of its cells are missing.
\<close>

definition sample :: frame where
  "sample =
     \<lparr>index = [Num 0, Num 1, Num 2, Num 3],
      columns =
       [(Str ''Country Name'', [Str ''India'', Str ''India'', Str ''Nigeria'', Str ''Kenya'']),
        (Str ''Country Code'', [Str ''IND'', Str ''IND'', Str ''NGA'', Str ''KEN'']),
        (Str ''Indicator Name'',
           [Str ''CO2 emissions (kt)'', Str ''Population growth (annual %)'',
            Str ''CO2 emissions (kt)'', Str ''CO2 emissions (kt)'']),
        (Str ''Indicator Code'',
           [Str ''EN.ATM.CO2E.KT'', Str ''SP.POP.GROW'', Str ''EN.ATM.CO2E.KT'',
            Str ''EN.ATM.CO2E.KT'']),
        (Str ''2001'', [NaN, Num 1.7, Num 83, Num 9]),
        (Str ''2002'', [Num 1010, Num 1.7, Num 98, Num 8]),
        (Str ''2003'', [Num 1050, Num 1.6, NaN, Num 7]),
        (Str ''2004'', [Num 1120, Num 1.6, Num 97, Num 8]),
        (Str ''2005'', [Num 1180, Num 1.5, Num 106, NaN]),
        (Str ''2006'', [Num 1260, Num 1.5, Num 98, Num 10]),
        (Str ''2007'', [Num 1360, Num 1.5, Num 95, Num 10]),
        (Str ''2008'', [Num 1460, Num 1.4, Num 96, Num 10]),
        (Str ''2009'', [Num 1610, Num 1.4, Num 77, Num 12]),
        (Str ''2010'', [Num 1720, Num 1.4, Num 92, Num 12])]\<rparr>"

section \<open>What the specification says of the filtered rows\<close>

text \<open>
  The cell of a row under a column label; and the rows the specification selects: the
  country is one of the listed countries and the indicator is the selected one.
\<close>

definition cell_at :: "cell \<times> (cell \<times> cell) list \<Rightarrow> string \<Rightarrow> cell option" where
  "cell_at r l = map_of (snd r) (Str l)"

definition names_one_of :: "cell option \<Rightarrow> string list \<Rightarrow> bool" where
  "names_one_of c xs = (case c of Some (Str s) \<Rightarrow> s \<in> set xs | _ \<Rightarrow> False)"

definition wanted :: "string list \<Rightarrow> string \<Rightarrow> cell \<times> (cell \<times> cell) list \<Rightarrow> bool" where
  "wanted countries indicator r \<longleftrightarrow>
     names_one_of (cell_at r ''Country Name'') countries \<and>
     cell_at r ''Indicator Name'' = Some (Str indicator)"

text \<open>
  A raw table with three year columns and no missing cell: the population growth of
  India and Nigeria. Filtering it for the first indicator of \<^verbatim>\<open>main\<close> and cleaning it
  leave it as it is.
\<close>

definition narrow :: frame where
  "narrow =
     \<lparr>index = [Num 0, Num 1],
      columns =
       [(Str ''Country Name'', [Str ''India'', Str ''Nigeria'']),
        (Str ''Country Code'', [Str ''IND'', Str ''NGA'']),
        (Str ''Indicator Name'',
           [Str ''Population growth (annual %)'', Str ''Population growth (annual %)'']),
        (Str ''Indicator Code'', [Str ''SP.POP.GROW'', Str ''SP.POP.GROW'']),
        (Str ''2001'', [Num 1.7, Num 2.5]),
        (Str ''2002'', [Num 1.7, Num 2.6]),
        (Str ''2003'', [Num 1.6, Num 2.6])]\<rparr>"

text \<open>
  A raw table of the same two rows in which every column but the two names misses a
  value.
\<close>

definition tiny :: frame where
  "tiny =
     \<lparr>index = [Num 0, Num 1],
      columns =
       [(Str ''Country Name'', [Str ''India'', Str ''Nigeria'']),
        (Str ''Country Code'', [NaN, Str ''NGA'']),
        (Str ''Indicator Name'',
           [Str ''Population growth (annual %)'', Str ''Population growth (annual %)'']),
        (Str ''Indicator Code'', [Str ''SP.POP.GROW'', NaN]),
        (Str ''2001'', [Num 1.7, NaN])]\<rparr>"

section \<open>What the specification says of the plotting window\<close>

text \<open>
  The positions, in a table of \<open>n\<close> columns, of the columns that a bar chart keeps: the
  last six for index 1, the six before the last two otherwise.
\<close>

definition bar_positions :: "int \<Rightarrow> nat \<Rightarrow> nat list" where
  "bar_positions idx n = (if idx = 1 then [n - 6..<n] else [n - 8..<n - 2])"

section \<open>Running the script\<close>

text \<open>
  What a successful run of each function leaves on the heap: the frames it built, in the
  order in which it built them, behind the objects that were there before.
\<close>

lemma ok_Inr_iff: "ok m k = Inr y \<longleftrightarrow> (\<exists>x. m = Inr x \<and> k x = Inr y)"
  by (cases m) (simp_all add: ok_def)

lemma Statistics_Inr:
  "Statistics h df cl il idx = Inr (h', s, p, q, n) \<longleftrightarrow>
     (\<exists>sub pop new final.
        select_sub (h ! df) cl il = Inr sub \<and> select_pop sub il idx = Inr pop \<and>
        window_bar (dropna_axis1 pop) idx = Inr new \<and>
        set_index new ''Country Name'' = Inr final \<and>
        h' = h @ [sub, pop, dropna_axis1 pop, final] \<and>
        s = length h \<and> p = length h + 1 \<and> q = length h + 2 \<and> n = length h + 3)"
  by (auto simp: Statistics_def ok_Inr_iff alloc_def nth_append)

lemma Statistics_line_Inr:
  "Statistics_line h df cl il idx = Inr (h', s, p, q, n) \<longleftrightarrow>
     (\<exists>sub pop new final.
        select_sub (h ! df) cl il = Inr sub \<and> select_pop sub il idx = Inr pop \<and>
        window_line (dropna_axis1 pop) = Inr new \<and>
        set_index new ''Country Name'' = Inr final \<and>
        h' = h @ [sub, pop, dropna_axis1 pop, final] \<and>
        s = length h \<and> p = length h + 1 \<and> q = length h + 2 \<and> n = length h + 3)"
  by (auto simp: Statistics_line_def ok_Inr_iff alloc_def nth_append)

lemma correlations_Inr:
  "correlations h df cl il idx cm = Inr (h', s, t, m) \<longleftrightarrow>
     (\<exists>sub one tmp1 tmp2 mat.
        select_sub (h ! df) cl il = Inr sub \<and> select_country sub cl idx = Inr one \<and>
        set_index (dropna_axis1 one) ''Indicator Name'' = Inr tmp1 \<and>
        drop_columns tmp1 [''Country Name'', ''Country Code'', ''Indicator Code''] = Inr tmp2 \<and>
        corr (frame_T tmp2) = Inr mat \<and>
        h' = h @ [sub, tmp2, mat] \<and>
        s = length h \<and> t = length h + 1 \<and> m = length h + 2)"
  by (auto simp: correlations_def ok_Inr_iff alloc_def nth_append)

lemma read_data_Inr:
  "read_data h csv = Inr (h', df, tr, cl) \<longleftrightarrow>
     (\<exists>t0 hdr t1 t2.
        reset_index (frame_T csv) = Inr t0 \<and> iloc_row0 t0 = Inr hdr \<and>
        set_columns t0 hdr = Inr t1 \<and>
        drop_index t1 [Num 0, Num 1, Num 2, Num 3] = Inr t2 \<and>
        h' = h @ [csv, t1, t2, reset_index_drop (rename_columns t2 ''Country Name'' ''Year''),
                  dropna_axis1 (reset_index_drop (rename_columns t2 ''Country Name'' ''Year''))] \<and>
        df = length h \<and> tr = length h + 3 \<and> cl = length h + 4)"
  by (auto simp: read_data_def ok_Inr_iff alloc_def nth_append)

lemma not_isl_Inr4: "\<not> isl r \<Longrightarrow> \<exists>a b c d. r = Inr (a, b, c, d)"
  by (cases r) auto

lemma not_isl_Inr5: "\<not> isl r \<Longrightarrow> \<exists>a b c d e. r = Inr (a, b, c, d, e)"
  by (cases r) auto

subsection \<open>Frames that have one value per row in every column\<close>

lemma rectangular_take_rows: "rectangular (take_rows f ps)"
  by (simp add: rectangular_def take_rows_def nrows_def list_all_iff)

lemma rectangular_getitem_mask: "rectangular (getitem_mask f msk)"
  by (simp add: getitem_mask_def rectangular_take_rows)

lemma select_sub_rectangular: "select_sub f cl il = Inr sub \<Longrightarrow> rectangular sub"
  by (auto simp: select_sub_def ok_Inr_iff rectangular_getitem_mask)

lemma select_pop_rectangular: "select_pop sub il idx = Inr pop \<Longrightarrow> rectangular pop"
  by (auto simp: select_pop_def ok_Inr_iff rectangular_getitem_mask)

lemma select_country_rectangular: "select_country sub cl idx = Inr one \<Longrightarrow> rectangular one"
  by (auto simp: select_country_def ok_Inr_iff rectangular_getitem_mask)

lemma drop_index_rectangular: "drop_index f ls = Inr g \<Longrightarrow> rectangular g"
  by (auto simp: drop_index_def rectangular_take_rows split: if_splits)

lemma rename_rectangular:
  "rectangular f \<Longrightarrow> rectangular (reset_index_drop (rename_columns f a b))"
  by (simp add: rectangular_def reset_index_drop_def rename_columns_def nrows_def
      range_index_def list_all_iff)

subsection \<open>Dropping the columns that miss a value\<close>

lemma no_nan_iff:
  "length vs = n \<Longrightarrow> list_all (\<lambda>i. vs ! i \<noteq> NaN) [0..<n] \<longleftrightarrow> NaN \<notin> set vs"
  by (auto simp: list_all_iff in_set_conv_nth)

lemma dropna_complete_columns:
  assumes "rectangular f"
  shows "columns (dropna_axis1 f) = complete_columns f"
proof -
  have "filter (\<lambda>c. NaN \<notin> set (snd c)) (columns f) = complete_columns f"
    unfolding complete_columns_def
  proof (rule filter_cong[OF refl])
    fix c assume "c \<in> set (columns f)"
    with assms have "length (snd c) = nrows f"
      by (simp add: rectangular_def list_all_iff)
    then show "(NaN \<notin> set (snd c)) = list_all (\<lambda>i. snd c ! i \<noteq> NaN) [0..<nrows f]"
      by (simp add: no_nan_iff)
  qed
  then show ?thesis
    by (simp add: dropna_axis1_def)
qed

lemma cleaned_dropna:
  assumes "rectangular f"
  shows "cleaned f (dropna_axis1 f)"
proof -
  have "list_all (\<lambda>c. NaN \<notin> set (snd c)) (columns (dropna_axis1 f))"
    by (simp add: dropna_axis1_def list_all_iff)
  moreover have "index (dropna_axis1 f) = index f"
    by (simp add: dropna_axis1_def)
  ultimately show ?thesis
    using dropna_complete_columns[OF assms] by (simp add: cleaned_def)
qed

lemma dropna_twice: "dropna_axis1 (dropna_axis1 f) = dropna_axis1 f"
  by (simp add: dropna_axis1_def)

lemma correlations_columns:
  assumes "set_index (dropna_axis1 one) ''Indicator Name'' = Inr tmp1"
    and "drop_columns tmp1 [''Country Name'', ''Country Code'', ''Indicator Code''] = Inr tmp2"
    and "rectangular one"
  shows "columns tmp2 = year_columns (complete_columns one)"
    and "list_all (\<lambda>c. NaN \<notin> set (snd c)) (columns tmp2)"
proof -
  have 1: "columns tmp1 = filter (\<lambda>c. fst c \<noteq> Str ''Indicator Name'') (complete_columns one)"
    using assms(1) dropna_complete_columns[OF assms(3)]
    by (auto simp: set_index_def split: list.splits)
  have 2: "columns tmp2 =
      filter (\<lambda>c. fst c \<notin> Str ` set [''Country Name'', ''Country Code'', ''Indicator Code''])
        (columns tmp1)"
    using assms(2) by (auto simp: drop_columns_def split: if_splits)
  show "columns tmp2 = year_columns (complete_columns one)"
    unfolding 1 2 year_columns_def by (auto intro!: filter_cong)
  have "list_all (\<lambda>c. NaN \<notin> set (snd c)) (complete_columns one)"
    using dropna_complete_columns[OF assms(3)]
    by (metis cleaned_def cleaned_dropna assms(3))
  then show "list_all (\<lambda>c. NaN \<notin> set (snd c)) (columns tmp2)"
    unfolding 1 2 by (simp add: list_all_iff)
qed

subsection \<open>The sample table runs through every function\<close>

lemma sample_Statistics:
  "\<exists>h' s p q n. Statistics [sample] 0 country_list indicator_list 1 = Inr (h', s, p, q, n)"
proof -
  have "\<not> isl (Statistics [sample] 0 country_list indicator_list 1)"
    by code_simp
  then show ?thesis by (rule not_isl_Inr5)
qed

lemma sample_Statistics_line:
  "\<exists>h' s p q n. Statistics_line [sample] 0 country_list indicator_list 1 = Inr (h', s, p, q, n)"
proof -
  have "\<not> isl (Statistics_line [sample] 0 country_list indicator_list 1)"
    by code_simp
  then show ?thesis by (rule not_isl_Inr5)
qed

lemma sample_correlations:
  "\<exists>h' s t m. correlations [sample] 0 country_list indicator_list 0 ''coolwarm'' = Inr (h', s, t, m)"
proof -
  have "\<not> isl (correlations [sample] 0 country_list indicator_list 0 ''coolwarm'')"
    by (simp add: correlations_def select_sub_def select_country_def ok_def alloc_def getitem_def
        sample_def country_list_def indicator_list_def isin_def mask_and_def eq_str_def
        getitem_mask_def take_rows_def nrows_def py_getitem_def dropna_axis1_def set_index_def
        drop_columns_def labels_def corr_def frame_T_def is_str_def)
  then show ?thesis by (rule not_isl_Inr4)
qed

lemma sample_read_data: "\<exists>h' df t c. read_data [] sample = Inr (h', df, t, c)"
proof -
  have "\<not> isl (read_data [] sample)"
    by code_simp
  then show ?thesis by (rule not_isl_Inr4)
qed

lemma sample_read_data_again: "\<exists>h' df t c. read_data [sample] sample = Inr (h', df, t, c)"
proof -
  have "\<not> isl (read_data [sample] sample)"
    by code_simp
  then show ?thesis by (rule not_isl_Inr4)
qed


subsection \<open>Selecting rows\<close>

lemma nrows_take_rows: "nrows (take_rows f ps) = length ps"
  by (simp add: nrows_def take_rows_def)

lemma row_take_rows: "k < length ps \<Longrightarrow> row (take_rows f ps) k = row f (ps ! k)"
  by (simp add: row_def take_rows_def)

lemma frame_rows_take_rows: "frame_rows (take_rows f ps) = map (row f) ps"
proof -
  have "frame_rows (take_rows f ps) = map (\<lambda>k. row f (ps ! k)) [0..<length ps]"
    by (simp add: frame_rows_def nrows_take_rows row_take_rows)
  also have "\<dots> = map (row f) (map (\<lambda>k. ps ! k) [0..<length ps])"
    by simp
  also have "\<dots> = map (row f) ps"
    by (simp only: map_nth)
  finally show ?thesis .
qed

lemma getitem_mask_rows:
  assumes "\<And>i. i < nrows f \<Longrightarrow> msk ! i = P (row f i)"
  shows "frame_rows (getitem_mask f msk) = filter P (frame_rows f)"
proof -
  have "filter (\<lambda>i. msk ! i) [0..<nrows f] = filter (\<lambda>i. P (row f i)) [0..<nrows f]"
    using assms by (auto intro: filter_cong)
  then have "frame_rows (getitem_mask f msk) =
      map (row f) (filter (\<lambda>i. P (row f i)) [0..<nrows f])"
    by (simp only: getitem_mask_def frame_rows_take_rows)
  also have "\<dots> = filter P (frame_rows f)"
    by (simp add: frame_rows_def filter_map comp_def)
  finally show ?thesis .
qed

lemma getitem_cell: "getitem f l = Inr vs \<Longrightarrow> cell_at (row f i) l = Some (vs ! i)"
proof -
  assume "getitem f l = Inr vs"
  then have "map_of (columns f) (Str l) = Some vs"
    by (simp add: getitem_def split: option.splits)
  moreover have "map_of (map (\<lambda>c. (fst c, snd c ! i)) cs) k = map_option (\<lambda>v. v ! i) (map_of cs k)"
    for cs :: "(cell \<times> cell list) list" and k
    by (induction cs) auto
  ultimately show ?thesis
    by (simp add: cell_at_def row_def)
qed

lemma getitem_length:
  assumes "rectangular f" and "getitem f l = Inr vs"
  shows "length vs = nrows f"
proof -
  from assms(2) have "map_of (columns f) (Str l) = Some vs"
    by (simp add: getitem_def split: option.splits)
  then have "(Str l, vs) \<in> set (columns f)"
    by (rule map_of_SomeD)
  with assms(1) show ?thesis
    by (auto simp: rectangular_def list_all_iff)
qed

lemma length_isin: "length (isin vs xs) = length vs"
  by (simp add: isin_def)

lemma isin_nth: "i < length vs \<Longrightarrow> isin vs xs ! i = names_one_of (Some (vs ! i)) xs"
  by (simp add: isin_def names_one_of_def)

lemma select_sub_rows:
  assumes "rectangular f" and "select_sub f cl il = Inr sub"
  shows "frame_rows sub =
    filter (\<lambda>r. names_one_of (cell_at r ''Country Name'') cl \<and>
                names_one_of (cell_at r ''Indicator Name'') il) (frame_rows f)"
proof -
  from assms(2) obtain cs ns where
    cs: "getitem f ''Country Name'' = Inr cs" and ns: "getitem f ''Indicator Name'' = Inr ns" and
    sub: "sub = getitem_mask f (mask_and (isin cs cl) (isin ns il))"
    by (auto simp: select_sub_def ok_Inr_iff)
  have len: "length cs = nrows f" "length ns = nrows f"
    using assms(1) cs ns by (simp_all add: getitem_length)
  show ?thesis
    unfolding sub
  proof (rule getitem_mask_rows)
    fix i assume "i < nrows f"
    then show "mask_and (isin cs cl) (isin ns il) ! i =
        (names_one_of (cell_at (row f i) ''Country Name'') cl \<and>
         names_one_of (cell_at (row f i) ''Indicator Name'') il)"
      using len
      by (simp add: mask_and_def length_isin isin_nth getitem_cell[OF cs] getitem_cell[OF ns])
  qed
qed

lemma select_pop_rows:
  assumes "rectangular sub" and "select_pop sub il idx = Inr pop"
  shows "\<exists>selected. py_getitem il idx = Inr selected \<and>
    frame_rows pop = filter (\<lambda>r. cell_at r ''Indicator Name'' = Some (Str selected)) (frame_rows sub)"
proof -
  from assms(2) obtain ns selected where
    ns: "getitem sub ''Indicator Name'' = Inr ns" and sel: "py_getitem il idx = Inr selected" and
    pop: "pop = getitem_mask sub (eq_str ns selected)"
    by (auto simp: select_pop_def ok_Inr_iff)
  have len: "length ns = nrows sub"
    using assms(1) ns by (simp add: getitem_length)
  have "frame_rows pop =
      filter (\<lambda>r. cell_at r ''Indicator Name'' = Some (Str selected)) (frame_rows sub)"
    unfolding pop
  proof (rule getitem_mask_rows)
    fix i assume "i < nrows sub"
    then show "eq_str ns selected ! i = (cell_at (row sub i) ''Indicator Name'' = Some (Str selected))"
      using len by (simp add: eq_str_def getitem_cell[OF ns])
  qed
  with sel show ?thesis by blast
qed

lemma py_getitem_member: "py_getitem xs i = Inr x \<Longrightarrow> x \<in> set xs"
  by (auto simp: py_getitem_def split: if_splits)

lemma filtered_rows:
  assumes "rectangular f" and "select_sub f cl il = Inr sub" and "select_pop sub il idx = Inr pop"
  shows "\<exists>selected. py_getitem il idx = Inr selected \<and>
           frame_rows pop = filter (wanted cl selected) (frame_rows f)"
proof -
  from select_pop_rows[OF select_sub_rectangular[OF assms(2)] assms(3)]
  obtain selected where sel: "py_getitem il idx = Inr selected" and
    pop: "frame_rows pop =
      filter (\<lambda>r. cell_at r ''Indicator Name'' = Some (Str selected)) (frame_rows sub)"
    by blast
  have mem: "selected \<in> set il"
    using sel by (rule py_getitem_member)
  have "frame_rows pop = filter (wanted cl selected) (frame_rows f)"
    unfolding pop select_sub_rows[OF assms(1,2)] filter_filter
    using mem by (intro filter_cong) (auto simp: wanted_def names_one_of_def)
  with sel show ?thesis by blast
qed


subsection \<open>The two slices\<close>

lemma slice_bound_negative: "0 < k \<Longrightarrow> slice_bound n (- int k) = n - k"
  by (auto simp: slice_bound_def Let_def)

lemma slice_from_minus_6: "py_slice xs (Some (- 6)) None = drop (length xs - 6) xs"
  using slice_bound_negative[of 6 "length xs"] by (simp add: py_slice_def Let_def)

lemma slice_minus_8_to_minus_2:
  "py_slice xs (Some (- 8)) (Some (- 2)) =
     take (length xs - 2 - (length xs - 8)) (drop (length xs - 8) xs)"
  using slice_bound_negative[of 8 "length xs"] slice_bound_negative[of 2 "length xs"]
  by (simp add: py_slice_def Let_def)

lemma take_drop_positions:
  "j \<le> length xs \<Longrightarrow> take (j - i) (drop i xs) = map (\<lambda>k. xs ! k) [i..<j]"
  by (rule nth_equalityI) auto

lemma slice_last_six:
  "6 \<le> length xs \<Longrightarrow>
     py_slice xs (Some (- 6)) None = map (\<lambda>k. xs ! k) [length xs - 6..<length xs]"
  using take_drop_positions[of "length xs" xs "length xs - 6"]
  by (simp add: slice_from_minus_6)

lemma slice_six_before_last_two:
  "8 \<le> length xs \<Longrightarrow>
     py_slice xs (Some (- 8)) (Some (- 2)) = map (\<lambda>k. xs ! k) [length xs - 8..<length xs - 2]"
  using take_drop_positions[of "length xs - 2" xs "length xs - 8"]
  by (simp add: slice_minus_8_to_minus_2)

lemma slice_clamped:
  "length xs < 8 \<Longrightarrow> py_slice xs (Some (- 8)) (Some (- 2)) = take (length xs - 2) xs"
  by (simp add: slice_minus_8_to_minus_2)

lemma iloc_col_0: "columns f \<noteq> [] \<Longrightarrow> iloc_col f 0 = Inr (hd (columns f))"
  by (simp add: iloc_col_def hd_conv_nth)

lemma window_line_eq:
  "columns f \<noteq> [] \<Longrightarrow>
     window_line f =
       Inr \<lparr>index = index f,
            columns = hd (columns f) # py_slice (columns f) (Some (- 8)) (Some (- 2))\<rparr>"
  by (simp add: window_line_def iloc_col_0 ok_def concat_axis1_def iloc_cols_def)

lemma window_bar_eq:
  "columns f \<noteq> [] \<Longrightarrow>
     window_bar f idx =
       Inr \<lparr>index = index f,
            columns = hd (columns f) #
              (if idx = 1 then py_slice (columns f) (Some (- 6)) None
               else py_slice (columns f) (Some (- 8)) (Some (- 2)))\<rparr>"
  by (simp add: window_bar_def iloc_col_0 ok_def concat_axis1_def iloc_cols_def)

lemma window_nonempty:
  "window_line f = Inr w \<Longrightarrow> columns f \<noteq> []" "window_bar f idx = Inr w \<Longrightarrow> columns f \<noteq> []"
  by (auto simp: window_line_def window_bar_def iloc_col_def ok_def split: if_splits)

lemma set_index_first:
  assumes "set_index \<lparr>index = ix, columns = c # W\<rparr> l = Inr g" and "fst c = Str l"
  shows "columns g = W" and "index g = snd c"
proof -
  have "filter (\<lambda>c. fst c = Str l) W = []"
    using assms by (auto simp: set_index_def split: list.splits)
  then have "filter (\<lambda>c. fst c \<noteq> Str l) W = W"
    by (auto simp: filter_empty_conv filter_id_conv)
  then show "columns g = W" and "index g = snd c"
    using assms by (auto simp: set_index_def split: list.splits)
qed


subsection \<open>The two name columns survive filtering and cleaning\<close>

lemma getitem_in_columns: "getitem f l = Inr vs \<Longrightarrow> (Str l, vs) \<in> set (columns f)"
  by (auto simp: getitem_def split: option.splits dest: map_of_SomeD)

lemma getitem_take_rows:
  assumes "getitem f l = Inr vs"
  shows "getitem (take_rows f ps) l = Inr (map (\<lambda>i. vs ! i) ps)"
proof -
  have "map_of (map (\<lambda>c. (fst c, map (\<lambda>i. snd c ! i) ps)) cs) k =
      map_option (\<lambda>v. map (\<lambda>i. v ! i) ps) (map_of cs k)"
    for cs :: "(cell \<times> cell list) list" and k
    by (induction cs) auto
  moreover from assms have "map_of (columns f) (Str l) = Some vs"
    by (simp add: getitem_def split: option.splits)
  ultimately show ?thesis
    by (simp add: getitem_def take_rows_def)
qed

lemma getitem_getitem_mask:
  "getitem f l = Inr vs \<Longrightarrow>
     getitem (getitem_mask f msk) l = Inr (map (\<lambda>i. vs ! i) (filter (\<lambda>i. msk ! i) [0..<nrows f]))"
  by (simp add: getitem_mask_def getitem_take_rows)

lemma select_sub_countries:
  assumes "rectangular f" and "select_sub f cl il = Inr sub"
  shows "\<exists>vs. getitem sub ''Country Name'' = Inr vs \<and> list_all is_str vs"
proof -
  from assms(2) obtain cs ns where
    cs: "getitem f ''Country Name'' = Inr cs" and ns: "getitem f ''Indicator Name'' = Inr ns" and
    sub: "sub = getitem_mask f (mask_and (isin cs cl) (isin ns il))"
    by (auto simp: select_sub_def ok_Inr_iff)
  have len: "length cs = nrows f" "length ns = nrows f"
    using assms(1) cs ns by (simp_all add: getitem_length)
  let ?ps = "filter (\<lambda>i. mask_and (isin cs cl) (isin ns il) ! i) [0..<nrows f]"
  have "is_str (cs ! i)" if "i \<in> set ?ps" for i
  proof -
    from that have "i < nrows f" and "mask_and (isin cs cl) (isin ns il) ! i"
      by auto
    then have "names_one_of (Some (cs ! i)) cl"
      using len by (simp add: mask_and_def length_isin isin_nth)
    then show ?thesis
      by (auto simp: names_one_of_def is_str_def split: cell.splits)
  qed
  then have "list_all is_str (map (\<lambda>i. cs ! i) ?ps)"
    by (simp add: list_all_iff)
  then show ?thesis
    unfolding sub using getitem_getitem_mask[OF cs] by simp
qed

lemma select_pop_names:
  assumes "rectangular f" and "select_sub f cl il = Inr sub" and "select_pop sub il idx = Inr pop"
  shows "\<exists>vs. getitem pop ''Country Name'' = Inr vs \<and> list_all is_str vs"
    and "\<exists>vs. getitem pop ''Indicator Name'' = Inr vs \<and> list_all is_str vs"
proof -
  have rect: "rectangular sub"
    using assms(2) by (rule select_sub_rectangular)
  from assms(3) obtain ns selected where
    ns: "getitem sub ''Indicator Name'' = Inr ns" and
    pop: "pop = getitem_mask sub (eq_str ns selected)"
    by (auto simp: select_pop_def ok_Inr_iff)
  let ?ps = "filter (\<lambda>i. eq_str ns selected ! i) [0..<nrows sub]"
  obtain cs where cs: "getitem sub ''Country Name'' = Inr cs" and str: "list_all is_str cs"
    using select_sub_countries[OF assms(1,2)] by blast
  have len: "length cs = nrows sub" "length ns = nrows sub"
    using rect cs ns by (simp_all add: getitem_length)
  have "list_all is_str (map (\<lambda>i. cs ! i) ?ps)"
    using str len by (auto simp: list_all_iff)
  then show "\<exists>vs. getitem pop ''Country Name'' = Inr vs \<and> list_all is_str vs"
    unfolding pop using getitem_getitem_mask[OF cs] by simp
  have "list_all is_str (map (\<lambda>i. ns ! i) ?ps)"
    using len by (auto simp: list_all_iff eq_str_def is_str_def)
  then show "\<exists>vs. getitem pop ''Indicator Name'' = Inr vs \<and> list_all is_str vs"
    unfolding pop using getitem_getitem_mask[OF ns] by simp
qed

lemma strings_survive_dropna:
  assumes "getitem f l = Inr vs" and "list_all is_str vs"
  shows "(Str l, vs) \<in> set (columns (dropna_axis1 f))"
proof -
  have "NaN \<notin> set vs"
    using assms(2) by (auto simp: list_all_iff is_str_def)
  then show ?thesis
    using getitem_in_columns[OF assms(1)] by (simp add: dropna_axis1_def)
qed

lemma names_survive:
  assumes "rectangular f" and "select_sub f cl il = Inr sub" and "select_pop sub il idx = Inr pop"
  shows "\<exists>a b. (Str ''Country Name'', a) \<in> set (columns (dropna_axis1 pop)) \<and>
               (Str ''Indicator Name'', b) \<in> set (columns (dropna_axis1 pop))"
  using select_pop_names[OF assms] strings_survive_dropna by blast

lemma few_year_columns:
  assumes "(Str ''Country Name'', a) \<in> set cs" and "(Str ''Indicator Name'', b) \<in> set cs"
  shows "length (year_columns cs) + 2 \<le> length cs"
proof -
  let ?P = "\<lambda>c. fst c \<notin> set [Str ''Country Name'', Str ''Country Code'',
                                  Str ''Indicator Name'', Str ''Indicator Code'']"
  have "{(Str ''Country Name'', a), (Str ''Indicator Name'', b)} \<subseteq> set (filter (\<lambda>c. \<not> ?P c) cs)"
    using assms by auto
  then have "card {(Str ''Country Name'', a), (Str ''Indicator Name'', b)}
      \<le> card (set (filter (\<lambda>c. \<not> ?P c) cs))"
    by (intro card_mono) auto
  also have "\<dots> \<le> length (filter (\<lambda>c. \<not> ?P c) cs)"
    by (rule card_length)
  finally have "2 \<le> length (filter (\<lambda>c. \<not> ?P c) cs)"
    by simp
  moreover have "length (filter ?P cs) + length (filter (\<lambda>c. \<not> ?P c) cs) = length cs"
    by (rule sum_length_filter_compl)
  ultimately show ?thesis
    unfolding year_columns_def by linarith
qed

lemma year_columns_drop: "length (year_columns (drop k cs)) \<le> length (year_columns cs)"
proof -
  have "year_columns cs = year_columns (take k cs) @ year_columns (drop k cs)"
    unfolding year_columns_def by (metis append_take_drop_id filter_append)
  then show ?thesis by simp
qed

lemma year_columns_length: "length (year_columns cs) \<le> length cs"
  by (simp add: year_columns_def)

section \<open>The claims\<close>

text \<open>
  C8. No call changes an object that existed before it: after \<^verbatim>\<open>Statistics\<close>,
  \<^verbatim>\<open>Statistics_line\<close> and \<^verbatim>\<open>correlations\<close> the heap still starts with the old heap, so
  the frame behind \<^verbatim>\<open>df\<close> is the one that was passed in (the in-place \<^verbatim>\<open>set_index\<close> and
  \<^verbatim>\<open>drop\<close> act on frames the call built itself); and \<^verbatim>\<open>read_data\<close> returns the table it
  read as it read it, next to a different object that holds the cleaned table.
\<close>

theorem calls_keep_their_inputs:
  assumes "df < length h"
  shows "(Statistics h df cl il idx = Inr (h1, v1) \<longrightarrow>
            take (length h) h1 = h \<and> h1 ! df = h ! df) \<and>
         (Statistics_line h df cl il idx = Inr (h2, v2) \<longrightarrow>
            take (length h) h2 = h \<and> h2 ! df = h ! df) \<and>
         (correlations h df cl il idx cmapstyle = Inr (h3, v3) \<longrightarrow>
            take (length h) h3 = h \<and> h3 ! df = h ! df) \<and>
         (read_data h csv = Inr (h4, r, df_transpose, df_clean) \<longrightarrow>
            take (length h) h4 = h \<and> h4 ! r = csv \<and> r \<noteq> df_clean)"
proof -
  obtain s1 p1 q1 n1 where v1: "v1 = (s1, p1, q1, n1)" by (cases v1)
  obtain s2 p2 q2 n2 where v2: "v2 = (s2, p2, q2, n2)" by (cases v2)
  obtain s3 t3 m3 where v3: "v3 = (s3, t3, m3)" by (cases v3)
  show ?thesis
    using assms unfolding v1 v2 v3
    by (auto simp: Statistics_Inr Statistics_line_Inr correlations_Inr read_data_Inr nth_append)
qed

theorem calls_keep_their_inputs_witness:
  "(\<exists>h1 v1. Statistics [sample] 0 country_list indicator_list 1 = Inr (h1, v1) \<and> h1 ! 0 = sample) \<and>
   (\<exists>h2 v2. Statistics_line [sample] 0 country_list indicator_list 1 = Inr (h2, v2) \<and>
      h2 ! 0 = sample) \<and>
   (\<exists>h3 v3. correlations [sample] 0 country_list indicator_list 0 ''coolwarm'' = Inr (h3, v3) \<and>
      h3 ! 0 = sample) \<and>
   (\<exists>h4 r t c. read_data [sample] sample = Inr (h4, r, t, c) \<and> h4 ! r = sample \<and> r \<noteq> c)"
proof -
  obtain h1 s1 p1 q1 n1
    where 1: "Statistics [sample] 0 country_list indicator_list 1 = Inr (h1, s1, p1, q1, n1)"
    using sample_Statistics by blast
  obtain h2 s2 p2 q2 n2
    where 2: "Statistics_line [sample] 0 country_list indicator_list 1 = Inr (h2, s2, p2, q2, n2)"
    using sample_Statistics_line by blast
  obtain h3 s3 t3 m3
    where 3: "correlations [sample] 0 country_list indicator_list 0 ''coolwarm'' = Inr (h3, s3, t3, m3)"
    using sample_correlations by blast
  obtain h4 r t c where 4: "read_data [sample] sample = Inr (h4, r, t, c)"
    using sample_read_data_again by blast
  have len: "(0::nat) < length [sample]" by simp
  show ?thesis
    using 1 2 3 4
      calls_keep_their_inputs[OF len, of country_list indicator_list 1 h1 "(s1, p1, q1, n1)"
        h2 "(s2, p2, q2, n2)" "''coolwarm''" h3 "(s3, t3, m3)" sample h4 r t c]
      calls_keep_their_inputs[OF len, of country_list indicator_list 0 h1 "(s1, p1, q1, n1)"
        h2 "(s2, p2, q2, n2)" "''coolwarm''" h3 "(s3, t3, m3)" sample h4 r t c]
    by simp
qed

text \<open>
  C5. Cleaning is idempotent: dropping the columns that miss a value from a table that
  has been cleaned returns that table, for every table and in particular for the cleaned
  table that \<^verbatim>\<open>read_data\<close> returns.
\<close>

theorem cleaning_idempotent:
  "dropna_axis1 (dropna_axis1 f) = dropna_axis1 f \<and>
   (read_data h csv = Inr (h', df, df_transpose, df_clean) \<longrightarrow>
      dropna_axis1 (h' ! df_clean) = h' ! df_clean)"
  by (auto simp: read_data_Inr dropna_twice nth_append)

theorem cleaning_idempotent_witness:
  "dropna_axis1 (dropna_axis1 sample) = dropna_axis1 sample \<and>
   (\<exists>h' df df_transpose df_clean.
      read_data [] sample = Inr (h', df, df_transpose, df_clean) \<and>
      dropna_axis1 (h' ! df_clean) = h' ! df_clean)"
proof -
  obtain h' df t c where "read_data [] sample = Inr (h', df, t, c)"
    using sample_read_data by blast
  then show ?thesis
    using cleaning_idempotent[of sample "[]" sample h' df t c] by blast
qed

text \<open>
  C1. Dropping the columns with a missing value keeps exactly the columns in which every
  row reports a value. In \<^verbatim>\<open>read_data\<close>, \<^verbatim>\<open>Statistics\<close> and \<^verbatim>\<open>Statistics_line\<close> the cleaned
  frame has the rows of the frame it was made from, its columns are the complete columns
  of that frame, and none of them holds a missing value. In \<^verbatim>\<open>correlations\<close>, where the
  cleaned frame then loses its four identifying columns, the columns that remain are the
  complete year columns of the selected country's rows, again without a missing value.
\<close>

theorem dropna_keeps_complete_columns:
  "(read_data h csv = Inr (h0, r0, t0, c0) \<longrightarrow> cleaned (h0 ! t0) (h0 ! c0)) \<and>
   (Statistics h df cl il idx = Inr (h1, s1, p1, q1, n1) \<longrightarrow> cleaned (h1 ! p1) (h1 ! q1)) \<and>
   (Statistics_line h df cl il idx = Inr (h2, s2, p2, q2, n2) \<longrightarrow> cleaned (h2 ! p2) (h2 ! q2)) \<and>
   (correlations h df cl il idx cmapstyle = Inr (h3, s3, t3, m3) \<longrightarrow>
      (\<exists>one. select_country (h3 ! s3) cl idx = Inr one \<and>
         columns (h3 ! t3) = year_columns (complete_columns one) \<and>
         list_all (\<lambda>c. NaN \<notin> set (snd c)) (columns (h3 ! t3))))"
proof (intro conjI impI)
  assume "read_data h csv = Inr (h0, r0, t0, c0)"
  then show "cleaned (h0 ! t0) (h0 ! c0)"
    by (auto simp: read_data_Inr nth_append cleaned_dropna rename_rectangular
        drop_index_rectangular)
next
  assume "Statistics h df cl il idx = Inr (h1, s1, p1, q1, n1)"
  then show "cleaned (h1 ! p1) (h1 ! q1)"
    by (auto simp: Statistics_Inr nth_append cleaned_dropna select_pop_rectangular)
next
  assume "Statistics_line h df cl il idx = Inr (h2, s2, p2, q2, n2)"
  then show "cleaned (h2 ! p2) (h2 ! q2)"
    by (auto simp: Statistics_line_Inr nth_append cleaned_dropna select_pop_rectangular)
next
  assume "correlations h df cl il idx cmapstyle = Inr (h3, s3, t3, m3)"
  then obtain sub one tmp1 tmp2 mat where
    one: "select_country sub cl idx = Inr one" and
    1: "set_index (dropna_axis1 one) ''Indicator Name'' = Inr tmp1" and
    2: "drop_columns tmp1 [''Country Name'', ''Country Code'', ''Indicator Code''] = Inr tmp2" and
    h3: "h3 = h @ [sub, tmp2, mat]" "s3 = length h" "t3 = length h + 1"
    by (auto simp: correlations_Inr)
  have "rectangular one"
    using one by (rule select_country_rectangular)
  from correlations_columns[OF 1 2 this] one h3
  show "\<exists>one. select_country (h3 ! s3) cl idx = Inr one \<and>
         columns (h3 ! t3) = year_columns (complete_columns one) \<and>
         list_all (\<lambda>c. NaN \<notin> set (snd c)) (columns (h3 ! t3))"
    by (auto simp: nth_append)
qed

theorem dropna_keeps_complete_columns_witness:
  "(\<exists>h0 r0 t0 c0. read_data [] sample = Inr (h0, r0, t0, c0) \<and> cleaned (h0 ! t0) (h0 ! c0)) \<and>
   (\<exists>h1 s1 p1 q1 n1. Statistics [sample] 0 country_list indicator_list 1 = Inr (h1, s1, p1, q1, n1) \<and>
      cleaned (h1 ! p1) (h1 ! q1)) \<and>
   (\<exists>h2 s2 p2 q2 n2. Statistics_line [sample] 0 country_list indicator_list 1 = Inr (h2, s2, p2, q2, n2) \<and>
      cleaned (h2 ! p2) (h2 ! q2)) \<and>
   (\<exists>h3 s3 t3 m3 one.
      correlations [sample] 0 country_list indicator_list 0 ''coolwarm'' = Inr (h3, s3, t3, m3) \<and>
      select_country (h3 ! s3) country_list 0 = Inr one \<and>
      columns (h3 ! t3) = year_columns (complete_columns one))"
proof -
  obtain h0 r0 t0 c0 where 0: "read_data [] sample = Inr (h0, r0, t0, c0)"
    using sample_read_data by blast
  obtain h1 s1 p1 q1 n1
    where 1: "Statistics [sample] 0 country_list indicator_list 1 = Inr (h1, s1, p1, q1, n1)"
    using sample_Statistics by blast
  obtain h2 s2 p2 q2 n2
    where 2: "Statistics_line [sample] 0 country_list indicator_list 1 = Inr (h2, s2, p2, q2, n2)"
    using sample_Statistics_line by blast
  obtain h3 s3 t3 m3
    where 3: "correlations [sample] 0 country_list indicator_list 0 ''coolwarm'' = Inr (h3, s3, t3, m3)"
    using sample_correlations by blast
  note a = dropna_keeps_complete_columns[of "[]" sample h0 r0 t0 c0 0
      country_list indicator_list 1 h1 s1 p1 q1 n1 h2 s2 p2 q2 n2 "''coolwarm''" h3 s3 t3 m3]
  note b = dropna_keeps_complete_columns[of "[sample]" sample h0 r0 t0 c0 0
      country_list indicator_list 1 h1 s1 p1 q1 n1 h2 s2 p2 q2 n2 "''coolwarm''" h3 s3 t3 m3]
  note c = dropna_keeps_complete_columns[of "[sample]" sample h0 r0 t0 c0 0
      country_list indicator_list 0 h1 s1 p1 q1 n1 h2 s2 p2 q2 n2 "''coolwarm''" h3 s3 t3 m3]
  show ?thesis
    using 0 1 2 3 a b c by blast
qed

text \<open>
  C3. The filtered series that \<^verbatim>\<open>Statistics\<close> and \<^verbatim>\<open>Statistics_line\<close> build from a raw
  table (\<^verbatim>\<open>df_pop\<close>) consists of exactly the rows of the table whose country is in the
  country list and whose indicator is \<^verbatim>\<open>indicator_list[index]\<close>, in their order. On the
  sample table, with its ten year columns, these are two rows.
\<close>

theorem filtered_series_rows:
  assumes "raw_table (h ! df)"
    and "Statistics h df cl il idx = Inr (h', s, p, q, n) \<or>
         Statistics_line h df cl il idx = Inr (h', s, p, q, n)"
  shows "\<exists>selected. py_getitem il idx = Inr selected \<and>
           frame_rows (h' ! p) = filter (wanted cl selected) (frame_rows (h ! df))"
proof -
  from assms(2) obtain sub pop where
    "select_sub (h ! df) cl il = Inr sub" "select_pop sub il idx = Inr pop" "h' ! p = pop"
    by (auto simp: Statistics_Inr Statistics_line_Inr nth_append)
  moreover have "rectangular (h ! df)"
    using assms(1) by (simp add: raw_table_def)
  ultimately show ?thesis
    using filtered_rows by metis
qed

theorem filtered_series_rows_witness:
  "raw_table sample \<and> py_getitem indicator_list 1 = Inr ''CO2 emissions (kt)'' \<and>
   (\<exists>h' s p q n. Statistics [sample] 0 country_list indicator_list 1 = Inr (h', s, p, q, n) \<and>
      frame_rows (h' ! p) = filter (wanted country_list ''CO2 emissions (kt)'') (frame_rows sample) \<and>
      map fst (frame_rows (h' ! p)) = [Num 0, Num 2] \<and> nrows (h' ! p) = 2)"
proof -
  have raw: "raw_table ([sample] ! 0)"
    by code_simp
  have sel: "py_getitem indicator_list 1 = Inr ''CO2 emissions (kt)''"
    by code_simp
  have two: "map fst (filter (wanted country_list ''CO2 emissions (kt)'') (frame_rows sample)) =
      [Num 0, Num 2]"
    by code_simp
  obtain h' s p q n
    where run: "Statistics [sample] 0 country_list indicator_list 1 = Inr (h', s, p, q, n)"
    using sample_Statistics by blast
  from filtered_series_rows[OF raw disjI1, OF run] sel
  have rows: "frame_rows (h' ! p) =
      filter (wanted country_list ''CO2 emissions (kt)'') (frame_rows sample)"
    by simp
  then have labels: "map fst (frame_rows (h' ! p)) = [Num 0, Num 2]"
    by (simp only: two)
  then have "length (map fst (frame_rows (h' ! p))) = 2"
    by simp
  then have "nrows (h' ! p) = 2"
    by (simp add: frame_rows_def)
  with run raw sel rows labels show ?thesis
    by simp
qed

end
